theory Spec2Isabelle
  imports Main
begin

section \<open>Data model\<close>

text \<open>
  The orchestration loop of \<^verbatim>\<open>backend/ai_generator.py\<close> talks to two external
  parties: the LLM client (\<^verbatim>\<open>self.client.messages.create\<close>) and the tool manager
  (\<^verbatim>\<open>tool_manager.execute_tool\<close>). Both are parameters of the model. Each is a function
  on an abstract world \<open>'w\<close> (so a reply may depend on everything that happened before),
  and each may return a value or raise.
\<close>

text \<open>
  Python exceptions. \<open>Exception m\<close> is an instance of the class \<^verbatim>\<open>Exception\<close> (or of any
  subclass) with \<^verbatim>\<open>str(e) = m\<close>. \<open>BaseException m\<close> is an exception outside that
  class (\<^verbatim>\<open>KeyboardInterrupt\<close>, \<^verbatim>\<open>SystemExit\<close>, \<^verbatim>\<open>GeneratorExit\<close>), which the handler
  \<^verbatim>\<open>except Exception\<close> does not catch.
\<close>

datatype py_exception = Exception string | BaseException string

text \<open>JSON values, for tool inputs and tool definitions.\<close>

datatype json = JNull | JBool bool | JNum int | JStr string
  | JArr "json list" | JObj "(string \<times> json) list"

type_synonym tool_input = "(string \<times> json) list"

text \<open>
  A content block of a response. The code looks at \<^verbatim>\<open>block.type\<close> only: \<^verbatim>\<open>"text"\<close> blocks
  carry \<^verbatim>\<open>text\<close>, \<^verbatim>\<open>"tool_use"\<close> blocks carry \<^verbatim>\<open>name\<close>, \<^verbatim>\<open>input\<close> and \<^verbatim>\<open>id\<close>;
  \<open>OtherBlock t\<close> is a block of any other type \<open>t\<close>.
\<close>

datatype content_block =
    TextBlock string
  | ToolUseBlock string tool_input string
  | OtherBlock string

record response =
  content :: "content_block list"
  stop_reason :: string

text \<open>The dict \<^verbatim>\<open>{"type": "tool_result", "tool_use_id": ..., "content": ...}\<close>.\<close>

record tool_result =
  rtype :: string
  tool_use_id :: string
  rcontent :: string

text \<open>
  A message \<^verbatim>\<open>{"role": ..., "content": ...}\<close>. Its content is the query string, the
  content blocks of a response, or a list of tool results.
\<close>

datatype message_content =
    Text string
  | Blocks "content_block list"
  | ToolResults "tool_result list"

record message =
  role :: string
  mcontent :: message_content

text \<open>
  The keyword arguments of \<^verbatim>\<open>client.messages.create\<close>. The keys \<^verbatim>\<open>tools\<close> and
  \<^verbatim>\<open>tool_choice\<close> may be absent (\<open>None\<close>).
\<close>

record request =
  req_model :: string
  temperature :: int
  max_tokens :: int
  messages :: "message list"
  system :: string
  tools :: "json list option"
  tool_choice :: "(string \<times> string) list option"

type_synonym llm_outcome = "py_exception + response"
type_synonym tool_outcome = "py_exception + string"

type_synonym 'w llm_client = "request \<Rightarrow> 'w \<Rightarrow> llm_outcome \<times> 'w"
type_synonym 'w tool_manager = "string \<Rightarrow> tool_input \<Rightarrow> 'w \<Rightarrow> tool_outcome \<times> 'w"

record 'w AIGenerator =
  client :: "'w llm_client"
  model :: string

text \<open>
  The calls made to the two external parties, in the order they are made, each with what it
  returned or raised. Every function below returns the calls it made beside its result.
\<close>

datatype event =
    LLMCall request llm_outcome
  | ToolCall string tool_input tool_outcome

section \<open>The generator\<close>

definition MAX_TOOL_ROUNDS :: nat where
  "MAX_TOOL_ROUNDS = 2"

text \<open>
  The system prompt, byte for byte (strings are UTF-8 byte lists; the source file holds the
  eight bytes written out below between \<^verbatim>\<open>only\<close> and \<^verbatim>\<open>no\<close>).
\<close>

definition SYSTEM_PROMPT :: string where
  "SYSTEM_PROMPT =
   '' You are an AI assistant specialized in course materials and educational content with access to tools for course information.\<newline>'' @
   ''\<newline>'' @
   ''Tool Usage:\<newline>'' @
   ''- **search_course_content**: Use for questions about specific course content or detailed educational materials\<newline>'' @
   ''- **get_course_outline**: Use for questions about course structure, lesson lists, or what topics a course covers\<newline>'' @
   ''  - Always include: course title, course link, and the complete lesson list with lesson numbers and titles\<newline>'' @
   ''\<newline>'' @
   ''Search Tool Usage:\<newline>'' @
   ''- Use the search tool **only** for questions about specific course content or detailed educational materials\<newline>'' @
   ''- **Up to two tool calls per query** - Use sequential calls when needed (e.g., get outline first, then search specific content)\<newline>'' @
   ''- Synthesize search results into accurate, fact-based responses\<newline>'' @
   ''- If search yields no results, state this clearly without offering alternatives\<newline>'' @
   ''\<newline>'' @
   ''Response Protocol:\<newline>'' @
   ''- **General knowledge questions**: Answer using existing knowledge without searching\<newline>'' @
   ''- **Course-specific questions**: Search first, then answer\<newline>'' @
   ''- **Course outline/structure questions**: Use get_course_outline tool\<newline>'' @
   ''- **No meta-commentary**:\<newline>'' @
   ''  - Provide direct answers only '' @
   [CHR 0xC3, CHR 0xA2, CHR 0xE2, CHR 0x82, CHR 0xAC, CHR 0xE2, CHR 0x80, CHR 0x9D] @
   '' no reasoning process, search explanations, or question-type analysis\<newline>'' @
   ''  - Do not mention \"based on the search results\"\<newline>'' @
   ''\<newline>'' @
   ''\<newline>'' @
   ''All responses must be:\<newline>'' @
   ''1. **Brief, Concise and focused** - Get to the point quickly\<newline>'' @
   ''2. **Educational** - Maintain instructional value\<newline>'' @
   ''3. **Clear** - Use accessible language\<newline>'' @
   ''4. **Example-supported** - Include relevant examples when they aid understanding\<newline>'' @
   ''Provide only the direct answer to what was asked.\<newline>''"

text \<open>Python truthiness of an optional string and of an optional list.\<close>

fun truthy :: "'a list option \<Rightarrow> bool" where
  "truthy None = False"
| "truthy (Some xs) = (xs \<noteq> [])"

text \<open>\<^verbatim>\<open>_extract_text_response\<close>: the text of the first text block, else the empty string.\<close>

fun extract_text_blocks :: "content_block list \<Rightarrow> string" where
  "extract_text_blocks [] = []"
| "extract_text_blocks (TextBlock t # bs) = t"
| "extract_text_blocks (b # bs) = extract_text_blocks bs"

definition extract_text_response :: "response \<Rightarrow> string" where
  "extract_text_response r = extract_text_blocks (content r)"

text \<open>\<^verbatim>\<open>_make_api_call\<close>: builds the parameters and calls the client once.\<close>

definition api_params ::
  "'w AIGenerator \<Rightarrow> message list \<Rightarrow> string \<Rightarrow> json list option \<Rightarrow> bool \<Rightarrow> request" where
  "api_params self msgs system_content tls include_tools =
     \<lparr>req_model = model self, temperature = 0, max_tokens = 800,
      messages = msgs, system = system_content,
      tools = (if truthy tls \<and> include_tools then tls else None),
      tool_choice = (if truthy tls \<and> include_tools then Some [(''type'', ''auto'')] else None)\<rparr>"

definition make_api_call ::
  "'w AIGenerator \<Rightarrow> message list \<Rightarrow> string \<Rightarrow> json list option \<Rightarrow> bool \<Rightarrow> 'w
     \<Rightarrow> llm_outcome \<times> 'w \<times> event list" where
  "make_api_call self msgs system_content tls include_tools w =
     (let p = api_params self msgs system_content tls include_tools;
          (out, w') = client self p w
      in (out, w', [LLMCall p out]))"

text \<open>
  The \<^verbatim>\<open>try\<close> statement of \<^verbatim>\<open>_execute_tools\<close>: a returned text is the result, an
  \<^verbatim>\<open>Exception\<close> becomes the result text, any other exception propagates.
\<close>

fun try_execute :: "tool_outcome \<Rightarrow> py_exception + string" where
  "try_execute (Inr text) = Inr text"
| "try_execute (Inl (Exception m)) = Inr (''Tool execution error: '' @ m)"
| "try_execute (Inl (BaseException m)) = Inl (BaseException m)"

text \<open>
  \<^verbatim>\<open>_execute_tools\<close>: the loop over \<^verbatim>\<open>response.content\<close>, with the list \<^verbatim>\<open>tool_results\<close>
  built so far.
\<close>

fun execute_blocks ::
  "'w tool_manager \<Rightarrow> content_block list \<Rightarrow> tool_result list \<Rightarrow> 'w
     \<Rightarrow> (py_exception + tool_result list) \<times> 'w \<times> event list" where
  "execute_blocks tm [] tool_results w = (Inr tool_results, w, [])"
| "execute_blocks tm (ToolUseBlock name inp bid # bs) tool_results w =
     (case tm name inp w of (out, w') \<Rightarrow>
        (case try_execute out of
           Inl e \<Rightarrow> (Inl e, w', [ToolCall name inp out])
         | Inr result \<Rightarrow>
             (case execute_blocks tm bs
                     (tool_results @
                        [\<lparr>rtype = ''tool_result'', tool_use_id = bid, rcontent = result\<rparr>]) w'
              of (res, w'', evs) \<Rightarrow> (res, w'', ToolCall name inp out # evs))))"
| "execute_blocks tm (b # bs) tool_results w = execute_blocks tm bs tool_results w"

definition execute_tools ::
  "response \<Rightarrow> 'w tool_manager \<Rightarrow> 'w
     \<Rightarrow> (py_exception + tool_result list) \<times> 'w \<times> event list" where
  "execute_tools r tm w = execute_blocks tm (content r) [] w"

text \<open>\<^verbatim>\<open>_build_messages_with_tool_results\<close>: a copy of the list with two messages appended.\<close>

definition build_messages_with_tool_results ::
  "message list \<Rightarrow> response \<Rightarrow> tool_result list \<Rightarrow> message list" where
  "build_messages_with_tool_results msgs assistant_response tool_results =
     msgs @ [\<lparr>role = ''assistant'', mcontent = Blocks (content assistant_response)\<rparr>,
             \<lparr>role = ''user'', mcontent = ToolResults tool_results\<rparr>]"

text \<open>
  \<^verbatim>\<open>_run_tool_loop\<close>: the \<^verbatim>\<open>while\<close> loop from the round \<^verbatim>\<open>current_round\<close> on, then the
  call without tools once the rounds are used up. \<open>tool_manager = None\<close> is a manager that
  is absent.
\<close>

function run_rounds ::
  "'w AIGenerator \<Rightarrow> string \<Rightarrow> json list \<Rightarrow> 'w tool_manager option \<Rightarrow> nat \<Rightarrow> message list \<Rightarrow> 'w
     \<Rightarrow> (py_exception + string) \<times> 'w \<times> event list" where
  "run_rounds self system_content tls tool_manager current_round current_messages w =
     (if current_round < MAX_TOOL_ROUNDS then
        (case make_api_call self current_messages system_content (Some tls) True w of
           (Inl e, w', evs) \<Rightarrow> (Inl e, w', evs)
         | (Inr response, w', evs) \<Rightarrow>
             if stop_reason response \<noteq> ''tool_use'' then
               (Inr (extract_text_response response), w', evs)
             else (case tool_manager of
               None \<Rightarrow> (Inr (extract_text_response response), w', evs)
             | Some tm \<Rightarrow>
                 (case execute_tools response tm w' of
                    (Inl e, w'', evs') \<Rightarrow> (Inl e, w'', evs @ evs')
                  | (Inr tool_results, w'', evs') \<Rightarrow>
                      (case run_rounds self system_content tls tool_manager (current_round + 1)
                              (build_messages_with_tool_results current_messages response
                                 tool_results) w''
                       of (res, w''', evs'') \<Rightarrow> (res, w''', evs @ evs' @ evs''))))) 
      else
        (case make_api_call self current_messages system_content None False w of
           (Inl e, w', evs) \<Rightarrow> (Inl e, w', evs)
         | (Inr final_response, w', evs) \<Rightarrow>
             (Inr (extract_text_response final_response), w', evs)))"
  by pat_completeness auto
termination
  by (relation "measure (\<lambda>(self, system_content, tls, tool_manager, current_round, current_messages, w).
        MAX_TOOL_ROUNDS - current_round)") auto

declare run_rounds.simps [simp del]

definition run_tool_loop ::
  "'w AIGenerator \<Rightarrow> message list \<Rightarrow> string \<Rightarrow> json list \<Rightarrow> 'w tool_manager option \<Rightarrow> 'w
     \<Rightarrow> (py_exception + string) \<times> 'w \<times> event list" where
  "run_tool_loop self msgs system_content tls tool_manager w =
     run_rounds self system_content tls tool_manager 0 msgs w"

text \<open>\<^verbatim>\<open>generate_response\<close>.\<close>

definition system_content_of :: "string option \<Rightarrow> string" where
  "system_content_of conversation_history =
     (if truthy conversation_history
      then SYSTEM_PROMPT @ ''\<newline>\<newline>Previous conversation:\<newline>'' @ the conversation_history
      else SYSTEM_PROMPT)"

definition generate_response ::
  "'w AIGenerator \<Rightarrow> string \<Rightarrow> string option \<Rightarrow> json list option \<Rightarrow> 'w tool_manager option \<Rightarrow> 'w
     \<Rightarrow> (py_exception + string) \<times> 'w \<times> event list" where
  "generate_response self query conversation_history tls tool_manager w =
     (let system_content = system_content_of conversation_history;
          msgs = [\<lparr>role = ''user'', mcontent = Text query\<rparr>]
      in if truthy tls then
           run_tool_loop self msgs system_content (the tls) tool_manager w
         else
           (case make_api_call self msgs system_content None True w of
              (Inl e, w', evs) \<Rightarrow> (Inl e, w', evs)
            | (Inr response, w', evs) \<Rightarrow> (Inr (extract_text_response response), w', evs)))"

section \<open>The tool registry\<close>

type_synonym 'w tool = "tool_input \<Rightarrow> 'w \<Rightarrow> tool_outcome \<times> 'w"

text \<open>
  Modelled from the spec: the tool registry (class \<^verbatim>\<open>ToolManager\<close> of
  \<^verbatim>\<open>backend/search_tools.py\<close>, which is not among the sources; only its tests are). The
  spec, section 4.2: the registry holds a mapping from tool name to tool, \<^verbatim>\<open>execute\<close>
  dispatches by name, and \<^verbatim>\<open>execute\<close> on an unknown name returns the error string
  \<^verbatim>\<open>"Tool '<name>' not found"\<close> and never raises. A tool is its \<^verbatim>\<open>execute\<close> operation.
  \<open>CHR 0x27\<close> is the apostrophe.
\<close>

definition execute_tool :: "(string \<rightharpoonup> 'w tool) \<Rightarrow> 'w tool_manager" where
  "execute_tool registry name inp w =
     (case registry name of
        None \<Rightarrow> (Inr (''Tool '' @ [CHR 0x27] @ name @ [CHR 0x27] @ '' not found''), w)
      | Some t \<Rightarrow> t inp w)"

section \<open>Observing a run\<close>

text \<open>
  What the statements below read off the list of calls of a run: which calls went to the
  LLM, which to a tool, and which raised an exception that nothing catches (any exception of
  an LLM call; an exception outside \<^verbatim>\<open>Exception\<close> of a tool call).
\<close>

fun is_tool_call :: "event \<Rightarrow> bool" where
  "is_tool_call (ToolCall name inp out) = True"
| "is_tool_call (LLMCall q out) = False"

fun propagates :: "event \<Rightarrow> bool" where
  "propagates (LLMCall q (Inl e)) = True"
| "propagates (ToolCall name inp (Inl (BaseException m))) = True"
| "propagates ev = False"

fun llm_requests :: "event list \<Rightarrow> request list" where
  "llm_requests [] = []"
| "llm_requests (LLMCall q out # evs) = q # llm_requests evs"
| "llm_requests (ToolCall name inp out # evs) = llm_requests evs"

text \<open>
  The rounds of a run: each LLM request with its outcome and the tool calls made after it,
  before the next LLM request.
\<close>

fun rounds :: "event list \<Rightarrow> (request \<times> llm_outcome \<times> event list) list" where
  "rounds [] = []"
| "rounds (LLMCall q out # evs) = (q, out, takeWhile is_tool_call evs) # rounds evs"
| "rounds (ToolCall name inp out # evs) = rounds evs"

text \<open>The identifiers, and the names and inputs, of the tool-use blocks of a response.\<close>

fun tool_use_ids :: "content_block list \<Rightarrow> string list" where
  "tool_use_ids [] = []"
| "tool_use_ids (ToolUseBlock name inp bid # bs) = bid # tool_use_ids bs"
| "tool_use_ids (b # bs) = tool_use_ids bs"

fun tool_uses :: "content_block list \<Rightarrow> (string \<times> tool_input) list" where
  "tool_uses [] = []"
| "tool_uses (ToolUseBlock name inp bid # bs) = (name, inp) # tool_uses bs"
| "tool_uses (b # bs) = tool_uses bs"

fun call_of :: "event \<Rightarrow> string \<times> tool_input" where
  "call_of (ToolCall name inp out) = (name, inp)"
| "call_of (LLMCall q out) = ([], [])"

text \<open>The text handed back to the LLM for a tool call that returned or raised an \<^verbatim>\<open>Exception\<close>.\<close>

fun result_text :: "event \<Rightarrow> string" where
  "result_text (ToolCall name inp (Inr text)) = text"
| "result_text (ToolCall name inp (Inl (Exception m))) = ''Tool execution error: '' @ m"
| "result_text ev = []"

text \<open>
  The tool results that pair the tool-use blocks of a response, in order, with the tool
  calls made for it.
\<close>

definition results_for :: "response \<Rightarrow> event list \<Rightarrow> tool_result list" where
  "results_for r calls =
     map (\<lambda>(bid, ev). \<lparr>rtype = ''tool_result'', tool_use_id = bid, rcontent = result_text ev\<rparr>)
       (zip (tool_use_ids (content r)) calls)"

text \<open>The payloads of the text blocks of a response, in order.\<close>

fun text_payloads :: "content_block list \<Rightarrow> string list" where
  "text_payloads [] = []"
| "text_payloads (TextBlock t # bs) = t # text_payloads bs"
| "text_payloads (b # bs) = text_payloads bs"

section \<open>Example runs\<close>

text \<open>
  A client that replays a list of responses, as the mocked client of
  \<^verbatim>\<open>backend/tests/test_ai_generator.py\<close> does; the world is the number of requests served.
\<close>

definition scripted_client :: "response list \<Rightarrow> nat llm_client" where
  "scripted_client rs q k =
     (if k < length rs then Inr (rs ! k) else Inl (Exception ''StopIteration''), Suc k)"

definition test_generator :: "response list \<Rightarrow> nat AIGenerator" where
  "test_generator rs = \<lparr>client = scripted_client rs, model = ''claude-test''\<rparr>"

text \<open>
  Three tools: one returns a text, one raises \<^verbatim>\<open>Exception("Course not found")\<close>, and one is
  interrupted (\<^verbatim>\<open>KeyboardInterrupt\<close>).
\<close>

definition search_tool :: "nat tool" where
  "search_tool inp w = (Inr ''Alternative content here'', w)"

definition outline_tool :: "nat tool" where
  "outline_tool inp w = (Inl (Exception ''Course not found''), w)"

definition interrupted_tool :: "nat tool" where
  "interrupted_tool inp w = (Inl (BaseException ''KeyboardInterrupt''), w)"

definition test_registry :: "string \<rightharpoonup> nat tool" where
  "test_registry =
     [''search_course_content'' \<mapsto> search_tool, ''get_course_outline'' \<mapsto> outline_tool,
      ''interrupted'' \<mapsto> interrupted_tool]"

definition test_manager :: "nat tool_manager" where
  "test_manager = execute_tool test_registry"

definition test_tools :: "json list" where
  "test_tools =
     [JObj [(''name'', JStr ''get_course_outline''), (''description'', JStr ''Get outline'')],
      JObj [(''name'', JStr ''search_course_content''), (''description'', JStr ''Search'')]]"

definition round1_response :: response where
  "round1_response =
     \<lparr>content =
        [ToolUseBlock ''get_course_outline'' [(''course_name'', JStr ''NonExistent'')] ''tool_1''],
      stop_reason = ''tool_use''\<rparr>"

definition round2_response :: response where
  "round2_response =
     \<lparr>content =
        [TextBlock ''Trying a search.'',
         ToolUseBlock ''search_course_content'' [(''query'', JStr ''alternative search'')]
           ''tool_2''],
      stop_reason = ''tool_use''\<rparr>"

definition final_response :: response where
  "final_response =
     \<lparr>content = [TextBlock ''Found alternative info''], stop_reason = ''end_turn''\<rparr>"

definition mixed_response :: response where
  "mixed_response =
     \<lparr>content =
        [ToolUseBlock ''get_course_outline'' [(''course_name'', JStr ''NonExistent'')] ''tool_1'',
         TextBlock ''Trying a search.'',
         ToolUseBlock ''search_course_content'' [(''query'', JStr ''alternative search'')]
           ''tool_2''],
      stop_reason = ''tool_use''\<rparr>"

text \<open>The tool results of the response above.\<close>

definition mixed_results :: "tool_result list" where
  "mixed_results =
     [\<lparr>rtype = ''tool_result'', tool_use_id = ''tool_1'',
       rcontent = ''Tool execution error: Course not found''\<rparr>,
      \<lparr>rtype = ''tool_result'', tool_use_id = ''tool_2'',
       rcontent = ''Alternative content here''\<rparr>]"

definition interrupted_response :: response where
  "interrupted_response =
     \<lparr>content =
        [ToolUseBlock ''interrupted'' [] ''tool_1'',
         ToolUseBlock ''search_course_content'' [(''query'', JStr ''alternative search'')]
           ''tool_2''],
      stop_reason = ''tool_use''\<rparr>"

definition blockless_response :: response where
  "blockless_response =
     \<lparr>content = [TextBlock ''One moment.''], stop_reason = ''tool_use''\<rparr>"

definition tool_request :: "message list \<Rightarrow> request" where
  "tool_request msgs =
     \<lparr>req_model = ''claude-test'', temperature = 0, max_tokens = 800, messages = msgs,
      system = SYSTEM_PROMPT, tools = Some test_tools,
      tool_choice = Some [(''type'', ''auto'')]\<rparr>"

definition plain_request :: "message list \<Rightarrow> request" where
  "plain_request msgs =
     \<lparr>req_model = ''claude-test'', temperature = 0, max_tokens = 800, messages = msgs,
      system = SYSTEM_PROMPT, tools = None, tool_choice = None\<rparr>"

definition messages1 :: "message list" where
  "messages1 = [\<lparr>role = ''user'', mcontent = Text ''Question''\<rparr>]"

definition messages2 :: "message list" where
  "messages2 = messages1 @
     [\<lparr>role = ''assistant'', mcontent = Blocks (content round1_response)\<rparr>,
      \<lparr>role = ''user'', mcontent = ToolResults
         [\<lparr>rtype = ''tool_result'', tool_use_id = ''tool_1'',
           rcontent = ''Tool execution error: Course not found''\<rparr>]\<rparr>]"

definition messages3 :: "message list" where
  "messages3 = messages2 @
     [\<lparr>role = ''assistant'', mcontent = Blocks (content round2_response)\<rparr>,
      \<lparr>role = ''user'', mcontent = ToolResults
         [\<lparr>rtype = ''tool_result'', tool_use_id = ''tool_2'',
           rcontent = ''Alternative content here''\<rparr>]\<rparr>]"

definition blockless_messages :: "message list" where
  "blockless_messages = messages1 @
     [\<lparr>role = ''assistant'', mcontent = Blocks (content blockless_response)\<rparr>,
      \<lparr>role = ''user'', mcontent = ToolResults []\<rparr>]"

definition outline_call :: event where
  "outline_call =
     ToolCall ''get_course_outline'' [(''course_name'', JStr ''NonExistent'')]
       (Inl (Exception ''Course not found''))"

definition search_call :: event where
  "search_call =
     ToolCall ''search_course_content'' [(''query'', JStr ''alternative search'')]
       (Inr ''Alternative content here'')"

definition interrupted_call :: event where
  "interrupted_call = ToolCall ''interrupted'' [] (Inl (BaseException ''KeyboardInterrupt''))"

text \<open>The calls of a run that uses both rounds and ends with the request without tools.\<close>

definition three_round_trace :: "event list" where
  "three_round_trace =
     [LLMCall (tool_request messages1) (Inr round1_response), outline_call,
      LLMCall (tool_request messages2) (Inr round2_response), search_call,
      LLMCall (plain_request messages3) (Inr final_response)]"

text \<open>The calls of a run whose second round ends normally.\<close>

definition two_round_trace :: "event list" where
  "two_round_trace =
     [LLMCall (tool_request messages1) (Inr round1_response), outline_call,
      LLMCall (tool_request messages2) (Inr final_response)]"

section \<open>Lists of calls\<close>

lemma llm_requests_append: "llm_requests (xs @ ys) = llm_requests xs @ llm_requests ys"
  by (induction xs rule: llm_requests.induct) auto

lemma llm_requests_tools: "list_all is_tool_call evs \<Longrightarrow> llm_requests evs = []"
  by (induction evs rule: llm_requests.induct) auto

lemma rounds_tools: "list_all is_tool_call evs \<Longrightarrow> rounds (evs @ rest) = rounds rest"
  by (induction evs rule: rounds.induct) auto

lemma rounds_tools_all: "list_all is_tool_call evs \<Longrightarrow> rounds evs = []"
  using rounds_tools[of evs "[]"] by simp

lemma rounds_requests: "map fst (rounds tr) = llm_requests tr"
  by (induction tr rule: rounds.induct) auto

lemma takeWhile_tools_all: "list_all is_tool_call evs \<Longrightarrow> takeWhile is_tool_call evs = evs"
  by (induction evs) auto

lemma takeWhile_tools:
  "list_all is_tool_call evs \<Longrightarrow> takeWhile is_tool_call (evs @ LLMCall q out # rest) = evs"
  by (induction evs) auto

section \<open>Text extraction and tool execution\<close>

lemma extract_text_blocks_first:
  "extract_text_blocks bs = (case text_payloads bs of [] \<Rightarrow> [] | t # ts \<Rightarrow> t)"
  by (induction bs rule: extract_text_blocks.induct) auto

lemma try_execute_raises:
  "try_execute out = Inl e \<Longrightarrow> propagates (ToolCall name inp out) \<and> (\<exists>m. e = BaseException m)"
  by (cases out rule: try_execute.cases) auto

lemma try_execute_text:
  "try_execute out = Inr t \<Longrightarrow>
     result_text (ToolCall name inp out) = t \<and> \<not> propagates (ToolCall name inp out)"
  by (cases out rule: try_execute.cases) auto

lemma execute_blocks_events:
  "execute_blocks tm bs acc w = (res, w', evs) \<Longrightarrow> list_all is_tool_call evs"
  by (induction tm bs acc w arbitrary: res w' evs rule: execute_blocks.induct)
     (auto split: prod.splits sum.splits)

lemma execute_tools_events:
  "execute_tools r tm w = (res, w', evs) \<Longrightarrow> list_all is_tool_call evs"
  unfolding execute_tools_def by (rule execute_blocks_events)

text \<open>The loop over the blocks ends early only when a tool call raises outside \<^verbatim>\<open>Exception\<close>.\<close>

lemma execute_blocks_aborted:
  "execute_blocks tm bs acc w = (Inl e, w', evs) \<Longrightarrow>
     (\<exists>m. e = BaseException m) \<and> (\<exists>ev\<in>set evs. propagates ev)"
  by (induction tm bs acc w arbitrary: w' evs rule: execute_blocks.induct)
     (auto split: prod.splits sum.splits dest: try_execute_raises)

lemma execute_blocks_clean:
  assumes "execute_blocks tm bs acc w = (res, w', evs)" and "\<forall>ev\<in>set evs. \<not> propagates ev"
  shows "\<exists>results. res = Inr results"
proof (cases res)
  case (Inl e)
  with assms(1) have "execute_blocks tm bs acc w = (Inl e, w', evs)"
    by simp
  then have "\<exists>ev\<in>set evs. propagates ev"
    by (rule execute_blocks_aborted[THEN conjunct2])
  with assms(2) show ?thesis by simp
next
  case (Inr results)
  then show ?thesis by simp
qed

lemma execute_tools_aborted:
  "execute_tools r tm w = (Inl e, w', evs) \<Longrightarrow> \<exists>ev\<in>set evs. propagates ev"
  unfolding execute_tools_def by (drule execute_blocks_aborted) simp

lemma execute_blocks_calls:
  "execute_blocks tm bs acc w = (Inr results, w', evs) \<Longrightarrow> map call_of evs = tool_uses bs"
  by (induction tm bs acc w arbitrary: results w' evs rule: execute_blocks.induct)
     (auto split: prod.splits sum.splits)

lemma execute_blocks_results:
  "execute_blocks tm bs acc w = (Inr results, w', evs) \<Longrightarrow>
     results = acc @
       map (\<lambda>(bid, ev). \<lparr>rtype = ''tool_result'', tool_use_id = bid, rcontent = result_text ev\<rparr>)
         (zip (tool_use_ids bs) evs)
     \<and> length evs = length (tool_use_ids bs)"
  by (induction tm bs acc w arbitrary: results w' evs rule: execute_blocks.induct)
     (auto split: prod.splits sum.splits simp: try_execute_text)


lemma execute_blocks_no_tools:
  "tool_use_ids bs = [] \<Longrightarrow> execute_blocks tm bs acc w = (Inr acc, w, [])"
  by (induction bs rule: tool_use_ids.induct) auto

lemma execute_tools_results:
  "execute_tools r tm w = (Inr results, w', evs) \<Longrightarrow> results = results_for r evs"
  unfolding execute_tools_def results_for_def by (drule execute_blocks_results) simp

lemma paired_ids:
  "length ids = length evs \<Longrightarrow>
     map tool_use_id
       (map (\<lambda>(bid, ev). \<lparr>rtype = ''tool_result'', tool_use_id = bid, rcontent = result_text ev\<rparr>)
          (zip ids evs)) = ids"
  by (induction ids evs rule: list_induct2) auto

section \<open>The rounds of the loop\<close>

text \<open>One pass through the body of the loop, or the request after the last round.\<close>

lemma run_rounds_cases [consumes 1, case_names forced failed final aborted continued]:
  assumes "run_rounds self sys tls tmo n msgs w = (res, w', tr)"
  obtains
    (forced) out where "\<not> n < MAX_TOOL_ROUNDS"
      "client self (api_params self msgs sys None False) w = (out, w')"
      "tr = [LLMCall (api_params self msgs sys None False) out]"
      "res = (case out of Inl e \<Rightarrow> Inl e | Inr r \<Rightarrow> Inr (extract_text_response r))"
  | (failed) e where "n < MAX_TOOL_ROUNDS"
      "client self (api_params self msgs sys (Some tls) True) w = (Inl e, w')"
      "tr = [LLMCall (api_params self msgs sys (Some tls) True) (Inl e)]"
      "res = Inl e"
  | (final) r where "n < MAX_TOOL_ROUNDS"
      "client self (api_params self msgs sys (Some tls) True) w = (Inr r, w')"
      "stop_reason r \<noteq> ''tool_use'' \<or> tmo = None"
      "tr = [LLMCall (api_params self msgs sys (Some tls) True) (Inr r)]"
      "res = Inr (extract_text_response r)"
  | (aborted) r w1 tm e evs where "n < MAX_TOOL_ROUNDS"
      "client self (api_params self msgs sys (Some tls) True) w = (Inr r, w1)"
      "stop_reason r = ''tool_use''" "tmo = Some tm"
      "execute_tools r tm w1 = (Inl e, w', evs)"
      "tr = LLMCall (api_params self msgs sys (Some tls) True) (Inr r) # evs"
      "res = Inl e"
  | (continued) r w1 tm results w2 evs tr' where "n < MAX_TOOL_ROUNDS"
      "client self (api_params self msgs sys (Some tls) True) w = (Inr r, w1)"
      "stop_reason r = ''tool_use''" "tmo = Some tm"
      "execute_tools r tm w1 = (Inr results, w2, evs)"
      "run_rounds self sys tls tmo (n + 1) (build_messages_with_tool_results msgs r results) w2
         = (res, w', tr')"
      "tr = LLMCall (api_params self msgs sys (Some tls) True) (Inr r) # evs @ tr'"
proof (cases "n < MAX_TOOL_ROUNDS")
  case False
  with assms forced show ?thesis
    by (subst (asm) run_rounds.simps)
       (auto simp: make_api_call_def Let_def split: prod.splits sum.splits)
next
  case True
  obtain out w1 where c: "client self (api_params self msgs sys (Some tls) True) w = (out, w1)"
    by (cases "client self (api_params self msgs sys (Some tls) True) w") 
  show ?thesis
  proof (cases out)
    case (Inl e)
    with assms True c failed show ?thesis
      by (subst (asm) run_rounds.simps) (auto simp: make_api_call_def Let_def)
  next
    case (Inr r)
    show ?thesis
    proof (cases "stop_reason r \<noteq> ''tool_use'' \<or> tmo = None")
      case stop: True
      with assms True c Inr final show ?thesis
        by (subst (asm) run_rounds.simps)
           (auto simp: make_api_call_def Let_def split: if_splits)
    next
      case go: False
      then obtain tm where tm: "tmo = Some tm" by auto
      obtain tres w2 evs where x: "execute_tools r tm w1 = (tres, w2, evs)"
        by (cases "execute_tools r tm w1") 
      show ?thesis
      proof (cases tres)
        case (Inl e)
        with assms True c Inr go tm x aborted show ?thesis
          by (subst (asm) run_rounds.simps) (auto simp: make_api_call_def Let_def)
      next
        case results: (Inr results)
        obtain res2 w3 tr' where rest: "run_rounds self sys tls tmo (n + 1)
            (build_messages_with_tool_results msgs r results) w2 = (res2, w3, tr')"
          by (cases "run_rounds self sys tls tmo (n + 1)
            (build_messages_with_tool_results msgs r results) w2") 
        with assms True c Inr go tm x results have "res = res2 \<and> w' = w3 \<and>
           tr = LLMCall (api_params self msgs sys (Some tls) True) (Inr r) # evs @ tr'"
          by (subst (asm) run_rounds.simps) (auto simp: make_api_call_def Let_def)
        with True c Inr go tm x results rest continued show ?thesis by auto
      qed
    qed
  qed
qed

lemma run_rounds_system:
  "run_rounds self sys tls tmo n msgs w = (res, w', tr) \<Longrightarrow>
     \<forall>q\<in>set (llm_requests tr). system q = sys \<and> req_model q = model self"
proof (induction "MAX_TOOL_ROUNDS - n" arbitrary: n msgs w res w' tr)
  case 0
  from "0.prems" "0.hyps" show ?case
    by (cases rule: run_rounds_cases) (auto simp: api_params_def)
next
  case (Suc k)
  from Suc.prems show ?case
  proof (cases rule: run_rounds_cases)
    case (continued r w1 tm results w2 evs tr')
    from Suc.hyps(2) have "k = MAX_TOOL_ROUNDS - (n + 1)" by simp
    from Suc.hyps(1)[OF this continued(6)] continued(5,7) show ?thesis
      by (auto simp: api_params_def llm_requests_append llm_requests_tools
            dest!: execute_tools_events)
  qed (auto simp: api_params_def llm_requests_tools dest!: execute_tools_events)
qed

lemma run_rounds_head:
  "run_rounds self sys tls tmo n msgs w = (res, w', tr) \<Longrightarrow>
     \<exists>out rest. tr = LLMCall (api_params self msgs sys
        (if n < MAX_TOOL_ROUNDS then Some tls else None) (n < MAX_TOOL_ROUNDS)) out # rest"
  by (subst (asm) run_rounds.simps)
     (auto simp: make_api_call_def Let_def split: prod.splits sum.splits if_splits option.splits)

lemma run_rounds_nonempty:
  "run_rounds self sys tls tmo n msgs w = (res, w', tr) \<Longrightarrow> llm_requests tr \<noteq> []"
  by (drule run_rounds_head) auto

text \<open>With two rounds, a run of the loop has one of seven shapes.\<close>

lemma run_tool_loop_cases
  [consumes 1, case_names failed1 final1 aborted1 failed2 final2 aborted2 forced]:
  assumes "run_tool_loop self msgs sys tls tmo w = (res, w', tr)"
  obtains
    (failed1) e where
      "tr = [LLMCall (api_params self msgs sys (Some tls) True) (Inl e)]" "res = Inl e"
  | (final1) r1 where
      "tr = [LLMCall (api_params self msgs sys (Some tls) True) (Inr r1)]"
      "stop_reason r1 \<noteq> ''tool_use'' \<or> tmo = None"
      "res = Inr (extract_text_response r1)"
  | (aborted1) r1 evs1 e where
      "tr = LLMCall (api_params self msgs sys (Some tls) True) (Inr r1) # evs1"
      "stop_reason r1 = ''tool_use''" "tmo \<noteq> None" "list_all is_tool_call evs1"
      "\<exists>ev\<in>set evs1. propagates ev" "res = Inl e"
  | (failed2) r1 evs1 e where
      "tr = LLMCall (api_params self msgs sys (Some tls) True) (Inr r1) # evs1 @
         [LLMCall (api_params self
            (build_messages_with_tool_results msgs r1 (results_for r1 evs1)) sys (Some tls) True)
            (Inl e)]"
      "stop_reason r1 = ''tool_use''" "tmo \<noteq> None" "list_all is_tool_call evs1" "res = Inl e"
  | (final2) r1 evs1 r2 where
      "tr = LLMCall (api_params self msgs sys (Some tls) True) (Inr r1) # evs1 @
         [LLMCall (api_params self
            (build_messages_with_tool_results msgs r1 (results_for r1 evs1)) sys (Some tls) True)
            (Inr r2)]"
      "stop_reason r1 = ''tool_use''" "tmo \<noteq> None" "list_all is_tool_call evs1"
      "stop_reason r2 \<noteq> ''tool_use''" "res = Inr (extract_text_response r2)"
  | (aborted2) r1 evs1 r2 evs2 e where
      "tr = LLMCall (api_params self msgs sys (Some tls) True) (Inr r1) # evs1 @
         LLMCall (api_params self
            (build_messages_with_tool_results msgs r1 (results_for r1 evs1)) sys (Some tls) True)
            (Inr r2) # evs2"
      "stop_reason r1 = ''tool_use''" "tmo \<noteq> None" "list_all is_tool_call evs1"
      "stop_reason r2 = ''tool_use''" "list_all is_tool_call evs2"
      "\<exists>ev\<in>set evs2. propagates ev" "res = Inl e"
  | (forced) r1 evs1 r2 evs2 out3 where
      "tr = LLMCall (api_params self msgs sys (Some tls) True) (Inr r1) # evs1 @
         LLMCall (api_params self
            (build_messages_with_tool_results msgs r1 (results_for r1 evs1)) sys (Some tls) True)
            (Inr r2) # evs2 @
         [LLMCall (api_params self
            (build_messages_with_tool_results
               (build_messages_with_tool_results msgs r1 (results_for r1 evs1))
               r2 (results_for r2 evs2)) sys None False) out3]"
      "stop_reason r1 = ''tool_use''" "tmo \<noteq> None" "list_all is_tool_call evs1"
      "stop_reason r2 = ''tool_use''" "list_all is_tool_call evs2"
      "res = (case out3 of Inl e \<Rightarrow> Inl e | Inr r3 \<Rightarrow> Inr (extract_text_response r3))"
proof -
  from assms have run: "run_rounds self sys tls tmo 0 msgs w = (res, w', tr)"
    by (simp add: run_tool_loop_def)
  from run show ?thesis
  proof (cases rule: run_rounds_cases)
    case (forced out)
    then show ?thesis by (simp add: MAX_TOOL_ROUNDS_def)
  next
    case (failed e)
    show ?thesis by (rule failed1[of e]) (use failed in simp_all)
  next
    case (final r)
    show ?thesis by (rule final1[of r]) (use final in simp_all)
  next
    case (aborted r w1 tm e evs)
    show ?thesis
      by (rule aborted1[of r evs e])
         (use aborted execute_tools_events[OF aborted(5)] execute_tools_aborted[OF aborted(5)]
          in simp_all)
  next
    case first: (continued r1 w1 tm results1 w2 evs1 tr1)
    note res1 = execute_tools_results[OF first(5)] and tools1 = execute_tools_events[OF first(5)]
    from first(6) show ?thesis
    proof (cases rule: run_rounds_cases)
      case (forced out)
      then show ?thesis by (simp add: MAX_TOOL_ROUNDS_def)
    next
      case (failed e)
      show ?thesis
        by (rule failed2[of r1 evs1 e])
           (use failed first(3,4,7) res1 tools1 in simp_all)
    next
      case (final r)
      show ?thesis
        by (rule final2[of r1 evs1 r])
           (use final first(3,4,7) res1 tools1 in simp_all)
    next
      case (aborted r w3 tm2 e evs)
      show ?thesis
        by (rule aborted2[of r1 evs1 r evs e])
           (use aborted(3,6,7) first(3,4,7) res1 tools1 execute_tools_events[OF aborted(5)]
              execute_tools_aborted[OF aborted(5)] in simp_all)
    next
      case second: (continued r2 w3 tm2 results2 w4 evs2 tr2)
      note res2 = execute_tools_results[OF second(5)]
        and tools2 = execute_tools_events[OF second(5)]
      from second(6) show ?thesis
      proof (cases rule: run_rounds_cases)
        case fin: (forced out)
        show ?thesis
          by (rule forced[of r1 evs1 r2 evs2 out])
             (use fin(3,4) first(3,4,7) second(3,7) res1 tools1 res2 tools2 in simp_all)
      qed (simp_all add: MAX_TOOL_ROUNDS_def)
    qed
  qed
qed

text \<open>The three ways a round goes on, as equations.\<close>

lemma execute_tools_clean:
  assumes "execute_tools r tm w = (res, w', evs)" and "\<forall>ev\<in>set evs. \<not> propagates ev"
  shows "res = Inr (results_for r evs)"
proof -
  from assms have "\<exists>results. res = Inr results"
    unfolding execute_tools_def by (rule execute_blocks_clean)
  then obtain results where res: "res = Inr results" ..
  from assms(1) have "results = results_for r evs"
    unfolding res by (rule execute_tools_results)
  with res show ?thesis by simp
qed

lemma run_rounds_forced:
  assumes "\<not> n < MAX_TOOL_ROUNDS"
    and "client self (api_params self msgs sys None False) w = (out, w')"
  shows "run_rounds self sys tls tmo n msgs w =
     (case out of Inl e \<Rightarrow> Inl e | Inr r \<Rightarrow> Inr (extract_text_response r), w',
      [LLMCall (api_params self msgs sys None False) out])"
  using assms by (subst run_rounds.simps) (simp add: make_api_call_def split: sum.splits)

lemma run_rounds_final:
  assumes "n < MAX_TOOL_ROUNDS"
    and "client self (api_params self msgs sys (Some tls) True) w = (Inr r, w')"
    and "stop_reason r \<noteq> ''tool_use''"
  shows "run_rounds self sys tls tmo n msgs w =
     (Inr (extract_text_response r), w',
      [LLMCall (api_params self msgs sys (Some tls) True) (Inr r)])"
  using assms by (subst run_rounds.simps) (simp add: make_api_call_def)

lemma run_rounds_continue:
  assumes "n < MAX_TOOL_ROUNDS"
    and "client self (api_params self msgs sys (Some tls) True) w = (Inr r, w1)"
    and "stop_reason r = ''tool_use''"
    and "execute_tools r tm w1 = (tres, w2, evs)"
    and "\<forall>ev\<in>set evs. \<not> propagates ev"
  shows "run_rounds self sys tls (Some tm) n msgs w =
     (case run_rounds self sys tls (Some tm) (n + 1)
             (build_messages_with_tool_results msgs r (results_for r evs)) w2 of
        (res, w', tr') \<Rightarrow>
          (res, w', LLMCall (api_params self msgs sys (Some tls) True) (Inr r) # evs @ tr'))"
proof -
  from assms(4,5) have "tres = Inr (results_for r evs)"
    by (rule execute_tools_clean)
  with assms(1,2,3,4) show ?thesis
    by (subst run_rounds.simps) (simp add: make_api_call_def split: prod.splits)
qed

lemma generate_response_loop:
  "tls \<noteq> [] \<Longrightarrow> generate_response self query hist (Some tls) tmo w =
     run_tool_loop self [\<lparr>role = ''user'', mcontent = Text query\<rparr>]
       (system_content_of hist) tls tmo w"
  by (simp add: generate_response_def)

section \<open>The example runs, evaluated\<close>

lemmas example_defs =
  test_generator_def scripted_client_def test_manager_def test_registry_def execute_tool_def
  search_tool_def outline_tool_def interrupted_tool_def round1_response_def
  round2_response_def final_response_def mixed_response_def interrupted_response_def
  blockless_response_def tool_request_def plain_request_def messages1_def messages2_def
  messages3_def blockless_messages_def outline_call_def search_call_def interrupted_call_def

lemmas run_defs =
  generate_response_def run_tool_loop_def run_rounds.simps MAX_TOOL_ROUNDS_def
  make_api_call_def api_params_def execute_tools_def build_messages_with_tool_results_def
  extract_text_response_def system_content_of_def

lemma test_tools_truthy: "test_tools \<noteq> []"
  by (simp add: test_tools_def)

lemma three_round_run:
  "generate_response (test_generator [round1_response, round2_response, final_response])
     ''Question'' None (Some test_tools) (Some test_manager) 0 =
   (Inr ''Found alternative info'', 3, three_round_trace)"
  by (simp add: run_defs example_defs three_round_trace_def test_tools_truthy)

lemma two_round_run:
  "generate_response (test_generator [round1_response, final_response])
     ''Question'' (Some []) (Some test_tools) (Some test_manager) 0 =
   (Inr ''Found alternative info'', 2, two_round_trace)"
  by (simp add: run_defs example_defs two_round_trace_def test_tools_truthy)

section \<open>Requests without tools\<close>

text \<open>
  Claim C6. When \<^verbatim>\<open>generate_response\<close> is called without tool definitions (\<^verbatim>\<open>tools\<close> absent
  or the empty list), it issues exactly one LLM request, which carries neither \<^verbatim>\<open>tools\<close> nor
  \<^verbatim>\<open>tool_choice\<close> and holds the single user message with the query. If the request is
  answered, the returned string is the payload of the first text block of the response, or
  the empty string when the response has no text block; extraction itself never raises.
  (An exception of the LLM call itself propagates.)
\<close>

theorem no_tools_single_request:
  assumes "tls = None \<or> tls = Some []"
  shows "generate_response self query hist tls tmo w =
     (let q = \<lparr>req_model = model self, temperature = 0, max_tokens = 800,
               messages = [\<lparr>role = ''user'', mcontent = Text query\<rparr>],
               system = system_content_of hist, tools = None, tool_choice = None\<rparr>
      in case client self q w of
           (Inl e, w') \<Rightarrow> (Inl e, w', [LLMCall q (Inl e)])
         | (Inr r, w') \<Rightarrow>
             (Inr (case text_payloads (content r) of [] \<Rightarrow> [] | t # ts \<Rightarrow> t), w',
              [LLMCall q (Inr r)]))"
  using assms
  by (auto simp: generate_response_def make_api_call_def api_params_def Let_def
        extract_text_response_def extract_text_blocks_first split: prod.splits sum.splits)

theorem no_tools_single_request_witness:
  "(Some [] = (None :: json list option) \<or> Some [] = (Some [] :: json list option))
   \<and> generate_response (test_generator [final_response]) ''Question'' None (Some []) None 0 =
       (Inr ''Found alternative info'', 1,
        [LLMCall (plain_request messages1) (Inr final_response)])
   \<and> generate_response (test_generator [\<lparr>content = [], stop_reason = ''end_turn''\<rparr>])
         ''Question'' None None None 0 =
       (Inr [], 1,
        [LLMCall (plain_request messages1) (Inr \<lparr>content = [], stop_reason = ''end_turn''\<rparr>)])"
  using no_tools_single_request[where tls = "Some []" and self = "test_generator [final_response]"
      and query = "''Question''" and hist = None and tmo = None and w = 0]
    no_tools_single_request[where tls = None
      and self = "test_generator [\<lparr>content = [], stop_reason = ''end_turn''\<rparr>]"
      and query = "''Question''" and hist = None and tmo = None and w = 0]
  by (simp add: example_defs system_content_of_def)

section \<open>Tool definitions without a registry\<close>

text \<open>
  Claim C7. With tool definitions but no registry (\<^verbatim>\<open>tool_manager\<close> is \<^verbatim>\<open>None\<close>), if the
  response of round 1 has stop reason \<^verbatim>\<open>"tool_use"\<close>, then \<^verbatim>\<open>generate_response\<close> returns the
  extracted text of that response: exactly one LLM request is issued, no tool is executed,
  and nothing is raised.
\<close>

theorem no_registry_degradation:
  assumes "tls \<noteq> []"
    and "client self
           \<lparr>req_model = model self, temperature = 0, max_tokens = 800,
            messages = [\<lparr>role = ''user'', mcontent = Text query\<rparr>],
            system = system_content_of hist, tools = Some tls,
            tool_choice = Some [(''type'', ''auto'')]\<rparr> w = (Inr r, w')"
    and "stop_reason r = ''tool_use''"
  shows "generate_response self query hist (Some tls) None w =
     (Inr (extract_text_response r), w',
      [LLMCall \<lparr>req_model = model self, temperature = 0, max_tokens = 800,
            messages = [\<lparr>role = ''user'', mcontent = Text query\<rparr>],
            system = system_content_of hist, tools = Some tls,
            tool_choice = Some [(''type'', ''auto'')]\<rparr> (Inr r)])"
  using assms
  by (simp add: generate_response_def run_tool_loop_def run_rounds.simps[of _ _ _ _ 0]
        MAX_TOOL_ROUNDS_def make_api_call_def api_params_def)

theorem no_registry_degradation_witness:
  "test_tools \<noteq> [] \<and> stop_reason round2_response = ''tool_use''
   \<and> generate_response (test_generator [round2_response]) ''Question'' None
         (Some test_tools) None 0 =
       (Inr ''Trying a search.'', 1, [LLMCall (tool_request messages1) (Inr round2_response)])"
proof -
  have c: "client (test_generator [round2_response])
      \<lparr>req_model = model (test_generator [round2_response]), temperature = 0,
       max_tokens = 800, messages = [\<lparr>role = ''user'', mcontent = Text ''Question''\<rparr>],
       system = system_content_of None, tools = Some test_tools,
       tool_choice = Some [(''type'', ''auto'')]\<rparr> 0 = (Inr round2_response, 1)"
    by (simp add: test_generator_def scripted_client_def)
  have s: "stop_reason round2_response = ''tool_use''"
    by (simp add: round2_response_def)
  from no_registry_degradation[OF test_tools_truthy c s] test_tools_truthy s show ?thesis
    by (simp add: example_defs system_content_of_def extract_text_response_def)
qed

section \<open>Unknown tools\<close>

text \<open>
  Claim C8. For every name that is not registered in the tool registry, \<^verbatim>\<open>execute\<close> on that
  name returns the error string \<^verbatim>\<open>"Tool '<name>' not found"\<close> as its text result; it does
  not raise (and runs no tool: the world is unchanged).
\<close>

theorem unknown_tool_not_found:
  assumes "name \<notin> dom registry"
  shows "execute_tool registry name inp w =
     (Inr (''Tool '' @ [CHR 0x27] @ name @ [CHR 0x27] @ '' not found''), w)"
  using assms by (auto simp: execute_tool_def split: option.splits)

theorem unknown_tool_not_found_witness:
  "''unknown_tool'' \<notin> dom test_registry
   \<and> execute_tool test_registry ''unknown_tool'' [] 0 =
       (Inr (''Tool '' @ [CHR 0x27] @ ''unknown_tool'' @ [CHR 0x27] @ '' not found''), 0)"
proof -
  have "''unknown_tool'' \<notin> dom test_registry"
    by (simp add: test_registry_def)
  from this unknown_tool_not_found[OF this] show ?thesis by simp
qed

section \<open>The system content\<close>

text \<open>
  Claim C9. An empty \<^verbatim>\<open>conversation_history\<close> is treated as an absent one: the whole run
  is the same as with \<^verbatim>\<open>None\<close>, and whenever the history is \<^verbatim>\<open>None\<close> or empty the system
  content of every request sent to the LLM (there is at least one) is exactly
  \<^verbatim>\<open>SYSTEM_PROMPT\<close>, with no section of previous conversation.
\<close>

theorem empty_history_is_absent:
  assumes "hist = None \<or> hist = Some []"
  shows "generate_response self query hist tls tmo w = generate_response self query None tls tmo w
       \<and> llm_requests (snd (snd (generate_response self query hist tls tmo w))) \<noteq> []
       \<and> (\<forall>q\<in>set (llm_requests (snd (snd (generate_response self query hist tls tmo w)))).
             system q = SYSTEM_PROMPT)"
proof -
  from assms have sys: "system_content_of hist = SYSTEM_PROMPT"
    by (auto simp: system_content_of_def)
  have none: "system_content_of None = SYSTEM_PROMPT"
    by (simp add: system_content_of_def)
  have same: "generate_response self query hist tls tmo w =
      generate_response self query None tls tmo w"
    by (simp add: generate_response_def sys none)
  obtain res w' tr where run: "generate_response self query hist tls tmo w = (res, w', tr)"
    by (cases "generate_response self query hist tls tmo w")
  have "llm_requests tr \<noteq> [] \<and> (\<forall>q\<in>set (llm_requests tr). system q = SYSTEM_PROMPT)"
  proof (cases "truthy tls")
    case True
    with run have "run_rounds self SYSTEM_PROMPT (the tls) tmo 0
        [\<lparr>role = ''user'', mcontent = Text query\<rparr>] w = (res, w', tr)"
      by (simp add: generate_response_def run_tool_loop_def sys)
    from run_rounds_nonempty[OF this] run_rounds_system[OF this] show ?thesis by simp
  next
    case False
    with run show ?thesis
      by (auto simp: generate_response_def make_api_call_def api_params_def sys Let_def
            split: prod.splits sum.splits)
  qed
  then have main: "llm_requests tr \<noteq> []"
      "\<forall>q\<in>set (llm_requests tr). system q = SYSTEM_PROMPT"
    by simp_all
  from run have tr: "snd (snd (generate_response self query hist tls tmo w)) = tr"
    by simp
  show ?thesis unfolding tr using same main by blast
qed

theorem empty_history_is_absent_witness:
  "generate_response (test_generator [round1_response, final_response])
       ''Question'' (Some []) (Some test_tools) (Some test_manager) 0 =
     generate_response (test_generator [round1_response, final_response])
       ''Question'' None (Some test_tools) (Some test_manager) 0
   \<and> llm_requests two_round_trace = [tool_request messages1, tool_request messages2]
   \<and> map system (llm_requests two_round_trace) = [SYSTEM_PROMPT, SYSTEM_PROMPT]"
  using empty_history_is_absent[where hist = "Some []"
      and self = "test_generator [round1_response, final_response]" and query = "''Question''"
      and tls = "Some test_tools" and tmo = "Some test_manager" and w = 0]
  by (simp add: two_round_run two_round_trace_def outline_call_def)

section \<open>Pairing of tool results\<close>

text \<open>
  Claim C3. When \<^verbatim>\<open>_execute_tools\<close> has executed a response with \<open>n\<close> tool-use blocks with
  identifiers \<open>id\<^sub>1, \<dots>, id\<^sub>n\<close>, the user message appended right after the assistant response
  holds exactly \<open>n\<close> tool results, in the same order, whose \<^verbatim>\<open>tool_use_id\<close> fields are
  \<open>id\<^sub>1, \<dots>, id\<^sub>n\<close>: one result per block, each block executed once, whether its execution
  returned or failed. The only other outcome of \<^verbatim>\<open>_execute_tools\<close> is that a tool call raised
  an exception outside \<^verbatim>\<open>Exception\<close>, which propagates; then no message is appended at all.
\<close>

theorem tool_result_pairing:
  assumes "execute_tools r tm w = (res, w', evs)"
  shows "(\<exists>results. res = Inr results
          \<and> map tool_use_id results = tool_use_ids (content r)
          \<and> (\<forall>x\<in>set results. rtype x = ''tool_result'')
          \<and> map call_of evs = tool_uses (content r)
          \<and> build_messages_with_tool_results msgs r results =
              msgs @ [\<lparr>role = ''assistant'', mcontent = Blocks (content r)\<rparr>,
                      \<lparr>role = ''user'', mcontent = ToolResults results\<rparr>])
       \<or> (\<exists>m. res = Inl (BaseException m) \<and> (\<exists>ev\<in>set evs. propagates ev))"
proof (cases res)
  case (Inl e)
  with assms have "execute_blocks tm (content r) [] w = (Inl e, w', evs)"
    by (simp add: execute_tools_def)
  from execute_blocks_aborted[OF this] Inl show ?thesis by blast
next
  case (Inr results)
  with assms have x: "execute_blocks tm (content r) [] w = (Inr results, w', evs)"
    by (simp add: execute_tools_def)
  from execute_blocks_results[OF x]
  have eq: "results =
      map (\<lambda>(bid, ev). \<lparr>rtype = ''tool_result'', tool_use_id = bid, rcontent = result_text ev\<rparr>)
        (zip (tool_use_ids (content r)) evs)"
    and len: "length evs = length (tool_use_ids (content r))" by simp_all
  have ids: "map tool_use_id results = tool_use_ids (content r)"
    unfolding eq using paired_ids[OF len[symmetric]] .
  have ty: "\<forall>x\<in>set results. rtype x = ''tool_result''"
    unfolding eq by auto
  from Inr ids ty execute_blocks_calls[OF x] show ?thesis
    by (simp add: build_messages_with_tool_results_def)
qed

theorem tool_result_pairing_witness:
  "execute_tools mixed_response test_manager 0 =
     (Inr mixed_results, 0, [outline_call, search_call])
   \<and> tool_use_ids (content mixed_response) = [''tool_1'', ''tool_2'']
   \<and> map tool_use_id mixed_results = [''tool_1'', ''tool_2'']
   \<and> map call_of [outline_call, search_call] = tool_uses (content mixed_response)
   \<and> build_messages_with_tool_results messages1 mixed_response mixed_results =
       messages1 @ [\<lparr>role = ''assistant'', mcontent = Blocks (content mixed_response)\<rparr>,
                    \<lparr>role = ''user'', mcontent = ToolResults mixed_results\<rparr>]"
proof -
  have x: "execute_tools mixed_response test_manager 0 =
     (Inr mixed_results, 0, [outline_call, search_call])"
    by (simp add: execute_tools_def example_defs mixed_results_def)
  have ids: "tool_use_ids (content mixed_response) = [''tool_1'', ''tool_2'']"
    by (simp add: mixed_response_def)
  from tool_result_pairing[OF x, of messages1] x ids show ?thesis
    by simp
qed

section \<open>Containment of tool errors\<close>




section \<open>The round budget\<close>

text \<open>
  Claim C1, as stated: with the round budget 2 and a registry supplied, every run in which
  the responses of round 1 and of round 2 both have stop reason \<^verbatim>\<open>"tool_use"\<close> issues exactly
  3 LLM requests and returns the text of the third response. This fails when a tool call of
  round 2 raises outside the class \<^verbatim>\<open>Exception\<close>, which \<^verbatim>\<open>except Exception\<close> lets through: both
  responses have stop reason \<^verbatim>\<open>"tool_use"\<close>, yet only 2 LLM requests are issued and
  \<^verbatim>\<open>generate_response\<close> raises.
\<close>

theorem budget_enforcement_counterexample:
  "stop_reason round1_response = ''tool_use'' \<and> stop_reason interrupted_response = ''tool_use''
   \<and> generate_response (test_generator [round1_response, interrupted_response, final_response])
         ''Question'' None (Some test_tools) (Some test_manager) 0 =
       (Inl (BaseException ''KeyboardInterrupt''), 2,
        [LLMCall (tool_request messages1) (Inr round1_response), outline_call,
         LLMCall (tool_request messages2) (Inr interrupted_response), interrupted_call])"
  by (simp add: run_defs example_defs test_tools_truthy)

text \<open>
  Claim C1, amended: with the round budget 2 and a registry supplied, if the responses of
  round 1 and of round 2 both have stop reason \<^verbatim>\<open>"tool_use"\<close> and no tool call of these rounds
  raises an exception outside \<^verbatim>\<open>Exception\<close>, then \<^verbatim>\<open>generate_response\<close> issues exactly 3 LLM
  requests. The first two carry the tool definitions; the third carries neither \<^verbatim>\<open>tools\<close> nor
  \<^verbatim>\<open>tool_choice\<close> and holds the accumulated messages. Tools are executed only after the first
  and after the second request, the request without tools is the last call of the run
  (issued once), and the result is the extracted text of its response (or the exception of
  that last call, if it raises).
\<close>

theorem budget_enforcement:
  assumes tls: "tls \<noteq> []"
    and c1: "client self (api_params self [\<lparr>role = ''user'', mcontent = Text query\<rparr>]
               (system_content_of hist) (Some tls) True) w = (Inr r1, w1)"
    and s1: "stop_reason r1 = ''tool_use''"
    and t1: "execute_tools r1 tm w1 = (tres1, w2, evs1)"
    and e1: "\<forall>ev\<in>set evs1. \<not> propagates ev"
    and c2: "client self (api_params self
               ([\<lparr>role = ''user'', mcontent = Text query\<rparr>] @
                [\<lparr>role = ''assistant'', mcontent = Blocks (content r1)\<rparr>,
                 \<lparr>role = ''user'', mcontent = ToolResults (results_for r1 evs1)\<rparr>])
               (system_content_of hist) (Some tls) True) w2 = (Inr r2, w3)"
    and s2: "stop_reason r2 = ''tool_use''"
    and t2: "execute_tools r2 tm w3 = (tres2, w4, evs2)"
    and e2: "\<forall>ev\<in>set evs2. \<not> propagates ev"
    and c3: "client self (api_params self
               ([\<lparr>role = ''user'', mcontent = Text query\<rparr>] @
                [\<lparr>role = ''assistant'', mcontent = Blocks (content r1)\<rparr>,
                 \<lparr>role = ''user'', mcontent = ToolResults (results_for r1 evs1)\<rparr>] @
                [\<lparr>role = ''assistant'', mcontent = Blocks (content r2)\<rparr>,
                 \<lparr>role = ''user'', mcontent = ToolResults (results_for r2 evs2)\<rparr>])
               (system_content_of hist) None False) w4 = (out3, w5)"
  shows "\<exists>q1 q2 q3.
       q1 = api_params self [\<lparr>role = ''user'', mcontent = Text query\<rparr>]
              (system_content_of hist) (Some tls) True
     \<and> q2 = api_params self (messages q1 @
              [\<lparr>role = ''assistant'', mcontent = Blocks (content r1)\<rparr>,
               \<lparr>role = ''user'', mcontent = ToolResults (results_for r1 evs1)\<rparr>])
              (system_content_of hist) (Some tls) True
     \<and> q3 = api_params self (messages q2 @
              [\<lparr>role = ''assistant'', mcontent = Blocks (content r2)\<rparr>,
               \<lparr>role = ''user'', mcontent = ToolResults (results_for r2 evs2)\<rparr>])
              (system_content_of hist) None False
     \<and> generate_response self query hist (Some tls) (Some tm) w =
         (case out3 of Inl e \<Rightarrow> Inl e | Inr r3 \<Rightarrow> Inr (extract_text_response r3), w5,
          LLMCall q1 (Inr r1) # evs1 @ LLMCall q2 (Inr r2) # evs2 @ [LLMCall q3 out3])
     \<and> list_all is_tool_call evs1 \<and> list_all is_tool_call evs2
     \<and> llm_requests (LLMCall q1 (Inr r1) # evs1 @ LLMCall q2 (Inr r2) # evs2 @ [LLMCall q3 out3])
         = [q1, q2, q3]
     \<and> tools q1 = Some tls \<and> tool_choice q1 = Some [(''type'', ''auto'')]
     \<and> tools q2 = Some tls \<and> tool_choice q2 = Some [(''type'', ''auto'')]
     \<and> tools q3 = None \<and> tool_choice q3 = None
     \<and> messages q1 = [\<lparr>role = ''user'', mcontent = Text query\<rparr>]
     \<and> messages q2 = messages q1 @
           [\<lparr>role = ''assistant'', mcontent = Blocks (content r1)\<rparr>,
            \<lparr>role = ''user'', mcontent = ToolResults (results_for r1 evs1)\<rparr>]
     \<and> messages q3 = messages q2 @
           [\<lparr>role = ''assistant'', mcontent = Blocks (content r2)\<rparr>,
            \<lparr>role = ''user'', mcontent = ToolResults (results_for r2 evs2)\<rparr>]"
proof -
  let ?m1 = "[\<lparr>role = ''user'', mcontent = Text query\<rparr>]"
  let ?m2 = "build_messages_with_tool_results ?m1 r1 (results_for r1 evs1)"
  let ?m3 = "build_messages_with_tool_results ?m2 r2 (results_for r2 evs2)"
  let ?sys = "system_content_of hist"
  let ?q1 = "api_params self ?m1 ?sys (Some tls) True"
  let ?q2 = "api_params self ?m2 ?sys (Some tls) True"
  let ?q3 = "api_params self ?m3 ?sys None False"
  have n0: "0 < MAX_TOOL_ROUNDS" and n1: "0 + 1 < MAX_TOOL_ROUNDS"
    and n2: "\<not> 0 + 1 + 1 < MAX_TOOL_ROUNDS"
    by (simp_all add: MAX_TOOL_ROUNDS_def)
  from c2 have c2': "client self ?q2 w2 = (Inr r2, w3)"
    by (simp add: build_messages_with_tool_results_def)
  from c3 have c3': "client self ?q3 w4 = (out3, w5)"
    by (simp add: build_messages_with_tool_results_def)
  have step3: "run_rounds self ?sys tls (Some tm) (0 + 1 + 1) ?m3 w4 =
         (case out3 of Inl e \<Rightarrow> Inl e | Inr r3 \<Rightarrow> Inr (extract_text_response r3), w5,
          [LLMCall ?q3 out3])"
    by (rule run_rounds_forced[OF n2 c3'])
  have step2: "run_rounds self ?sys tls (Some tm) (0 + 1) ?m2 w2 =
         (case out3 of Inl e \<Rightarrow> Inl e | Inr r3 \<Rightarrow> Inr (extract_text_response r3), w5,
          LLMCall ?q2 (Inr r2) # evs2 @ [LLMCall ?q3 out3])"
    unfolding run_rounds_continue[OF n1 c2' s2 t2 e2] step3 by (simp only: prod.case)
  have step1: "run_rounds self ?sys tls (Some tm) 0 ?m1 w =
         (case out3 of Inl e \<Rightarrow> Inl e | Inr r3 \<Rightarrow> Inr (extract_text_response r3), w5,
          LLMCall ?q1 (Inr r1) # evs1 @ LLMCall ?q2 (Inr r2) # evs2 @ [LLMCall ?q3 out3])"
    unfolding run_rounds_continue[OF n0 c1 s1 t1 e1] step2 by (simp only: prod.case)
  have run: "generate_response self query hist (Some tls) (Some tm) w =
         (case out3 of Inl e \<Rightarrow> Inl e | Inr r3 \<Rightarrow> Inr (extract_text_response r3), w5,
          LLMCall ?q1 (Inr r1) # evs1 @ LLMCall ?q2 (Inr r2) # evs2 @ [LLMCall ?q3 out3])"
    using tls step1 by (simp add: generate_response_def run_tool_loop_def)
  have tools1: "list_all is_tool_call evs1" and tools2: "list_all is_tool_call evs2"
    using execute_tools_events[OF t1] execute_tools_events[OF t2] by simp_all
  have reqs: "llm_requests (LLMCall ?q1 (Inr r1) # evs1 @ LLMCall ?q2 (Inr r2) # evs2 @
      [LLMCall ?q3 out3]) = [?q1, ?q2, ?q3]"
    using tools1 tools2 by (simp add: llm_requests_append llm_requests_tools)
  have ids: "?q1 = api_params self [\<lparr>role = ''user'', mcontent = Text query\<rparr>]
              (system_content_of hist) (Some tls) True
     \<and> ?q2 = api_params self (messages ?q1 @
              [\<lparr>role = ''assistant'', mcontent = Blocks (content r1)\<rparr>,
               \<lparr>role = ''user'', mcontent = ToolResults (results_for r1 evs1)\<rparr>])
              (system_content_of hist) (Some tls) True
     \<and> ?q3 = api_params self (messages ?q2 @
              [\<lparr>role = ''assistant'', mcontent = Blocks (content r2)\<rparr>,
               \<lparr>role = ''user'', mcontent = ToolResults (results_for r2 evs2)\<rparr>])
              (system_content_of hist) None False"
    by (simp add: api_params_def build_messages_with_tool_results_def)
  have fields: "tools ?q1 = Some tls \<and> tool_choice ?q1 = Some [(''type'', ''auto'')]
     \<and> tools ?q2 = Some tls \<and> tool_choice ?q2 = Some [(''type'', ''auto'')]
     \<and> tools ?q3 = None \<and> tool_choice ?q3 = None
     \<and> messages ?q1 = [\<lparr>role = ''user'', mcontent = Text query\<rparr>]
     \<and> messages ?q2 = messages ?q1 @
           [\<lparr>role = ''assistant'', mcontent = Blocks (content r1)\<rparr>,
            \<lparr>role = ''user'', mcontent = ToolResults (results_for r1 evs1)\<rparr>]
     \<and> messages ?q3 = messages ?q2 @
           [\<lparr>role = ''assistant'', mcontent = Blocks (content r2)\<rparr>,
            \<lparr>role = ''user'', mcontent = ToolResults (results_for r2 evs2)\<rparr>]"
    using tls by (simp add: api_params_def build_messages_with_tool_results_def)
  show ?thesis
    by (rule exI[of _ ?q1], rule exI[of _ ?q2], rule exI[of _ ?q3])
       (use ids run tools1 tools2 reqs fields in blast)
qed

theorem budget_enforcement_witness:
  "test_tools \<noteq> []
   \<and> stop_reason round1_response = ''tool_use'' \<and> stop_reason round2_response = ''tool_use''
   \<and> \<not> propagates outline_call \<and> \<not> propagates search_call
   \<and> generate_response (test_generator [round1_response, round2_response, final_response])
         ''Question'' None (Some test_tools) (Some test_manager) 0 =
       (Inr ''Found alternative info'', 3, three_round_trace)
   \<and> llm_requests three_round_trace =
       [tool_request messages1, tool_request messages2, plain_request messages3]"
proof -
  let ?g = "test_generator [round1_response, round2_response, final_response]"
  let ?m1 = "[\<lparr>role = ''user'', mcontent = Text ''Question''\<rparr>]"
  let ?m2 = "?m1 @ [\<lparr>role = ''assistant'', mcontent = Blocks (content round1_response)\<rparr>,
     \<lparr>role = ''user'', mcontent = ToolResults (results_for round1_response [outline_call])\<rparr>]"
  let ?m3 = "?m1 @ [\<lparr>role = ''assistant'', mcontent = Blocks (content round1_response)\<rparr>,
     \<lparr>role = ''user'', mcontent = ToolResults (results_for round1_response [outline_call])\<rparr>] @
    [\<lparr>role = ''assistant'', mcontent = Blocks (content round2_response)\<rparr>,
     \<lparr>role = ''user'', mcontent = ToolResults (results_for round2_response [search_call])\<rparr>]"
  have c1: "client ?g (api_params ?g ?m1 (system_content_of None) (Some test_tools) True) 0 =
      (Inr round1_response, 1)"
    by (simp add: test_generator_def scripted_client_def)
  have s1: "stop_reason round1_response = ''tool_use''"
    by (simp add: round1_response_def)
  have t1: "execute_tools round1_response test_manager 1 =
      (Inr [\<lparr>rtype = ''tool_result'', tool_use_id = ''tool_1'',
              rcontent = ''Tool execution error: Course not found''\<rparr>], 1, [outline_call])"
    by (simp add: execute_tools_def example_defs)
  have e1: "\<forall>ev\<in>set [outline_call]. \<not> propagates ev"
    by (simp add: outline_call_def)
  have c2: "client ?g (api_params ?g ?m2 (system_content_of None) (Some test_tools) True) 1 =
      (Inr round2_response, 2)"
    by (simp add: test_generator_def scripted_client_def)
  have s2: "stop_reason round2_response = ''tool_use''"
    by (simp add: round2_response_def)
  have t2: "execute_tools round2_response test_manager 2 =
      (Inr [\<lparr>rtype = ''tool_result'', tool_use_id = ''tool_2'',
              rcontent = ''Alternative content here''\<rparr>], 2, [search_call])"
    by (simp add: execute_tools_def example_defs)
  have e2: "\<forall>ev\<in>set [search_call]. \<not> propagates ev"
    by (simp add: search_call_def)
  have c3: "client ?g (api_params ?g ?m3 (system_content_of None) None False) 2 =
      (Inr final_response, 3)"
    by (simp add: test_generator_def scripted_client_def)
  from budget_enforcement[OF test_tools_truthy c1 s1 t1 e1 c2 s2 t2 e2 c3]
  have run: "generate_response ?g ''Question'' None (Some test_tools) (Some test_manager) 0 =
      (Inr ''Found alternative info'', 3, three_round_trace)"
    by (simp add: api_params_def system_content_of_def results_for_def three_round_trace_def
          example_defs extract_text_response_def test_tools_truthy)
  have reqs: "llm_requests three_round_trace =
      [tool_request messages1, tool_request messages2, plain_request messages3]"
    by (simp add: three_round_trace_def outline_call_def search_call_def)
  from test_tools_truthy s1 s2 e1 e2 run reqs show ?thesis by simp
qed

section \<open>Ending within the budget\<close>

text \<open>
  Claim C5. For every round \<open>r \<le> 2\<close>: if the response of round \<open>r\<close> has a stop reason other
  than \<^verbatim>\<open>"tool_use"\<close>, the loop returns the extracted text of that response at once. For
  \<open>r = 1\<close> the run is the single request of round 1. For \<open>r = 2\<close> (round 1 asked for tools, they
  were executed, and round 2 was answered) the run is the request of round 1, its tool calls
  and the request of round 2. In both cases exactly \<open>r\<close> LLM requests are issued, no tool is
  executed after the request of round \<open>r\<close>, and every request carries the tool definitions:
  the request without tools is not issued.
\<close>

theorem early_termination:
  assumes tls: "tls \<noteq> []"
    and c1: "client self (api_params self [\<lparr>role = ''user'', mcontent = Text query\<rparr>]
               (system_content_of hist) (Some tls) True) w = (Inr r1, w1)"
  shows "\<exists>q1.
       q1 = api_params self [\<lparr>role = ''user'', mcontent = Text query\<rparr>]
              (system_content_of hist) (Some tls) True
     \<and> tools q1 = Some tls
     \<and> messages q1 = [\<lparr>role = ''user'', mcontent = Text query\<rparr>]
     \<and> (stop_reason r1 \<noteq> ''tool_use'' \<longrightarrow>
            generate_response self query hist (Some tls) tmo w =
              (Inr (extract_text_response r1), w1, [LLMCall q1 (Inr r1)]))
     \<and> (stop_reason r1 = ''tool_use'' \<longrightarrow>
          execute_tools r1 tm w1 = (tres1, w2, evs1) \<longrightarrow>
          (\<forall>ev\<in>set evs1. \<not> propagates ev) \<longrightarrow>
          client self (api_params self
               ([\<lparr>role = ''user'', mcontent = Text query\<rparr>] @
                [\<lparr>role = ''assistant'', mcontent = Blocks (content r1)\<rparr>,
                 \<lparr>role = ''user'', mcontent = ToolResults (results_for r1 evs1)\<rparr>])
               (system_content_of hist) (Some tls) True) w2 = (Inr r2, w3) \<longrightarrow>
          stop_reason r2 \<noteq> ''tool_use'' \<longrightarrow>
          (\<exists>q2.
              q2 = api_params self (messages q1 @
                     [\<lparr>role = ''assistant'', mcontent = Blocks (content r1)\<rparr>,
                      \<lparr>role = ''user'', mcontent = ToolResults (results_for r1 evs1)\<rparr>])
                     (system_content_of hist) (Some tls) True
            \<and> tools q2 = Some tls
            \<and> generate_response self query hist (Some tls) (Some tm) w =
                (Inr (extract_text_response r2), w3,
                 LLMCall q1 (Inr r1) # evs1 @ [LLMCall q2 (Inr r2)])
            \<and> list_all is_tool_call evs1
            \<and> llm_requests (LLMCall q1 (Inr r1) # evs1 @ [LLMCall q2 (Inr r2)]) = [q1, q2]))"
proof -
  let ?m1 = "[\<lparr>role = ''user'', mcontent = Text query\<rparr>]"
  let ?m2 = "build_messages_with_tool_results ?m1 r1 (results_for r1 evs1)"
  let ?sys = "system_content_of hist"
  let ?q1 = "api_params self ?m1 ?sys (Some tls) True"
  let ?q2 = "api_params self ?m2 ?sys (Some tls) True"
  have n0: "0 < MAX_TOOL_ROUNDS" and n1: "0 + 1 < MAX_TOOL_ROUNDS"
    by (simp_all add: MAX_TOOL_ROUNDS_def)
  have fields: "tools ?q1 = Some tls \<and> tools ?q2 = Some tls
     \<and> messages ?q1 = [\<lparr>role = ''user'', mcontent = Text query\<rparr>]"
    using tls by (simp add: api_params_def)
  have q2: "?q2 = api_params self (messages ?q1 @
        [\<lparr>role = ''assistant'', mcontent = Blocks (content r1)\<rparr>,
         \<lparr>role = ''user'', mcontent = ToolResults (results_for r1 evs1)\<rparr>])
        (system_content_of hist) (Some tls) True"
    by (simp add: api_params_def build_messages_with_tool_results_def)
  have first: "generate_response self query hist (Some tls) tmo w =
      (Inr (extract_text_response r1), w1, [LLMCall ?q1 (Inr r1)])"
    if "stop_reason r1 \<noteq> ''tool_use''"
    using tls run_rounds_final[OF n0 c1 that]
    by (simp add: generate_response_def run_tool_loop_def)
  have second: "generate_response self query hist (Some tls) (Some tm) w =
        (Inr (extract_text_response r2), w3, LLMCall ?q1 (Inr r1) # evs1 @ [LLMCall ?q2 (Inr r2)])
      \<and> list_all is_tool_call evs1
      \<and> llm_requests (LLMCall ?q1 (Inr r1) # evs1 @ [LLMCall ?q2 (Inr r2)]) = [?q1, ?q2]"
    if s1: "stop_reason r1 = ''tool_use''"
      and t1: "execute_tools r1 tm w1 = (tres1, w2, evs1)"
      and e1: "\<forall>ev\<in>set evs1. \<not> propagates ev"
      and c2: "client self (api_params self
               ([\<lparr>role = ''user'', mcontent = Text query\<rparr>] @
                [\<lparr>role = ''assistant'', mcontent = Blocks (content r1)\<rparr>,
                 \<lparr>role = ''user'', mcontent = ToolResults (results_for r1 evs1)\<rparr>])
               (system_content_of hist) (Some tls) True) w2 = (Inr r2, w3)"
      and s2: "stop_reason r2 \<noteq> ''tool_use''"
  proof -
    from c2 have c2': "client self ?q2 w2 = (Inr r2, w3)"
      by (simp add: build_messages_with_tool_results_def)
    have step2: "run_rounds self ?sys tls (Some tm) (0 + 1) ?m2 w2 =
        (Inr (extract_text_response r2), w3, [LLMCall ?q2 (Inr r2)])"
      by (rule run_rounds_final[OF n1 c2' s2])
    have step1: "run_rounds self ?sys tls (Some tm) 0 ?m1 w =
        (Inr (extract_text_response r2), w3, LLMCall ?q1 (Inr r1) # evs1 @ [LLMCall ?q2 (Inr r2)])"
      unfolding run_rounds_continue[OF n0 c1 s1 t1 e1] step2 by (simp only: prod.case)
    have tools1: "list_all is_tool_call evs1"
      by (rule execute_tools_events[OF t1])
    from tls step1 tools1 show ?thesis
      by (simp add: generate_response_def run_tool_loop_def llm_requests_append
            llm_requests_tools)
  qed
  have part2: "stop_reason r1 = ''tool_use'' \<longrightarrow>
          execute_tools r1 tm w1 = (tres1, w2, evs1) \<longrightarrow>
          (\<forall>ev\<in>set evs1. \<not> propagates ev) \<longrightarrow>
          client self (api_params self
               ([\<lparr>role = ''user'', mcontent = Text query\<rparr>] @
                [\<lparr>role = ''assistant'', mcontent = Blocks (content r1)\<rparr>,
                 \<lparr>role = ''user'', mcontent = ToolResults (results_for r1 evs1)\<rparr>])
               (system_content_of hist) (Some tls) True) w2 = (Inr r2, w3) \<longrightarrow>
          stop_reason r2 \<noteq> ''tool_use'' \<longrightarrow>
          (\<exists>q2.
              q2 = api_params self (messages ?q1 @
                     [\<lparr>role = ''assistant'', mcontent = Blocks (content r1)\<rparr>,
                      \<lparr>role = ''user'', mcontent = ToolResults (results_for r1 evs1)\<rparr>])
                     (system_content_of hist) (Some tls) True
            \<and> tools q2 = Some tls
            \<and> generate_response self query hist (Some tls) (Some tm) w =
                (Inr (extract_text_response r2), w3,
                 LLMCall ?q1 (Inr r1) # evs1 @ [LLMCall q2 (Inr r2)])
            \<and> list_all is_tool_call evs1
            \<and> llm_requests (LLMCall ?q1 (Inr r1) # evs1 @ [LLMCall q2 (Inr r2)]) = [?q1, q2])"
  proof (intro impI)
    assume s1: "stop_reason r1 = ''tool_use''"
      and t1: "execute_tools r1 tm w1 = (tres1, w2, evs1)"
      and e1: "\<forall>ev\<in>set evs1. \<not> propagates ev"
      and c2: "client self (api_params self
               ([\<lparr>role = ''user'', mcontent = Text query\<rparr>] @
                [\<lparr>role = ''assistant'', mcontent = Blocks (content r1)\<rparr>,
                 \<lparr>role = ''user'', mcontent = ToolResults (results_for r1 evs1)\<rparr>])
               (system_content_of hist) (Some tls) True) w2 = (Inr r2, w3)"
      and s2: "stop_reason r2 \<noteq> ''tool_use''"
    show "\<exists>q2.
              q2 = api_params self (messages ?q1 @
                     [\<lparr>role = ''assistant'', mcontent = Blocks (content r1)\<rparr>,
                      \<lparr>role = ''user'', mcontent = ToolResults (results_for r1 evs1)\<rparr>])
                     (system_content_of hist) (Some tls) True
            \<and> tools q2 = Some tls
            \<and> generate_response self query hist (Some tls) (Some tm) w =
                (Inr (extract_text_response r2), w3,
                 LLMCall ?q1 (Inr r1) # evs1 @ [LLMCall q2 (Inr r2)])
            \<and> list_all is_tool_call evs1
            \<and> llm_requests (LLMCall ?q1 (Inr r1) # evs1 @ [LLMCall q2 (Inr r2)]) = [?q1, q2]"
      by (rule exI[of _ ?q2]) (use q2 fields second[OF s1 t1 e1 c2 s2] in blast)
  qed
  show ?thesis
    by (rule exI[of _ ?q1]) (use fields first part2 in blast)
qed

theorem early_termination_witness:
  "test_tools \<noteq> [] \<and> stop_reason final_response \<noteq> ''tool_use''
   \<and> stop_reason round1_response = ''tool_use'' \<and> \<not> propagates outline_call
   \<and> generate_response (test_generator [final_response]) ''Question'' None (Some test_tools)
         (Some test_manager) 0 =
       (Inr ''Found alternative info'', 1,
        [LLMCall (tool_request messages1) (Inr final_response)])
   \<and> generate_response (test_generator [round1_response, final_response]) ''Question'' None
         (Some test_tools) (Some test_manager) 0 =
       (Inr ''Found alternative info'', 2, two_round_trace)
   \<and> llm_requests two_round_trace = [tool_request messages1, tool_request messages2]"
proof -
  let ?g1 = "test_generator [final_response]"
  let ?g2 = "test_generator [round1_response, final_response]"
  let ?m1 = "[\<lparr>role = ''user'', mcontent = Text ''Question''\<rparr>]"
  let ?m2 = "?m1 @ [\<lparr>role = ''assistant'', mcontent = Blocks (content round1_response)\<rparr>,
     \<lparr>role = ''user'', mcontent = ToolResults (results_for round1_response [outline_call])\<rparr>]"
  have a1: "client ?g1 (api_params ?g1 ?m1 (system_content_of None) (Some test_tools) True) 0 =
      (Inr final_response, 1)"
    by (simp add: test_generator_def scripted_client_def)
  have stop: "stop_reason final_response \<noteq> ''tool_use''"
    by (simp add: final_response_def)
  from early_termination[where tmo = "Some test_manager", OF test_tools_truthy a1] stop
  have run1: "generate_response ?g1 ''Question'' None (Some test_tools) (Some test_manager) 0 =
      (Inr ''Found alternative info'', 1, [LLMCall (tool_request messages1) (Inr final_response)])"
    by (simp add: api_params_def system_content_of_def example_defs extract_text_response_def
          test_tools_truthy)
  have c1: "client ?g2 (api_params ?g2 ?m1 (system_content_of None) (Some test_tools) True) 0 =
      (Inr round1_response, 1)"
    by (simp add: test_generator_def scripted_client_def)
  have s1: "stop_reason round1_response = ''tool_use''"
    by (simp add: round1_response_def)
  have t1: "execute_tools round1_response test_manager 1 =
      (Inr [\<lparr>rtype = ''tool_result'', tool_use_id = ''tool_1'',
              rcontent = ''Tool execution error: Course not found''\<rparr>], 1, [outline_call])"
    by (simp add: execute_tools_def example_defs)
  have e1: "\<forall>ev\<in>set [outline_call]. \<not> propagates ev"
    by (simp add: outline_call_def)
  have c2: "client ?g2 (api_params ?g2 ?m2 (system_content_of None) (Some test_tools) True) 1 =
      (Inr final_response, 2)"
    by (simp add: test_generator_def scripted_client_def)
  from early_termination[where tm = test_manager
      and ?evs1.0 = "[outline_call]" and ?w2.0 = 1 and ?r2.0 = final_response and ?w3.0 = 2
      and ?tres1.0 = "Inr [\<lparr>rtype = ''tool_result'', tool_use_id = ''tool_1'',
              rcontent = ''Tool execution error: Course not found''\<rparr>]",
      OF test_tools_truthy c1]
    s1 t1 e1 c2 stop
  have run2: "generate_response ?g2 ''Question'' None (Some test_tools) (Some test_manager) 0 =
      (Inr ''Found alternative info'', 2, two_round_trace)"
    by (simp add: api_params_def system_content_of_def results_for_def two_round_trace_def
          example_defs extract_text_response_def test_tools_truthy)
  have reqs: "llm_requests two_round_trace = [tool_request messages1, tool_request messages2]"
    by (simp add: two_round_trace_def outline_call_def)
  from test_tools_truthy stop s1 e1 run1 run2 reqs show ?thesis by simp
qed

section \<open>Accumulation of messages\<close>

text \<open>
  Claim C2. In every run of \<^verbatim>\<open>generate_response\<close> the first LLM request holds the single user
  message with the query, the request number \<open>i\<close> (counted from 0; the claim counts from 1)
  holds \<open>1 + 2 * i\<close> messages, and the message list of each later request is the message list
  of the request before it with exactly two messages appended: the assistant message with
  the content of the response to that request, then the user message whose content is the
  ordered list of the tool results of that round. Nothing is removed or reordered.
\<close>

theorem message_accumulation:
  assumes run: "generate_response self query hist tls tmo w = (res, w', tr)"
  shows "map fst (rounds tr) = llm_requests tr
     \<and> llm_requests tr \<noteq> []
     \<and> messages (llm_requests tr ! 0) = [\<lparr>role = ''user'', mcontent = Text query\<rparr>]
     \<and> (\<forall>i<length (llm_requests tr). length (messages (llm_requests tr ! i)) = 1 + 2 * i)
     \<and> (\<forall>i. Suc i < length (rounds tr) \<longrightarrow>
           (\<exists>q r calls q' out' calls'.
               rounds tr ! i = (q, Inr r, calls) \<and> rounds tr ! Suc i = (q', out', calls')
             \<and> messages q' = messages q @
                  [\<lparr>role = ''assistant'', mcontent = Blocks (content r)\<rparr>,
                   \<lparr>role = ''user'', mcontent = ToolResults (results_for r calls)\<rparr>]))"
proof (cases "truthy tls")
  case False
  with run show ?thesis
    by (auto simp: generate_response_def make_api_call_def api_params_def Let_def rounds_requests
          split: prod.splits sum.splits)
next
  case True
  then obtain tls' where tls': "tls = Some tls'" "tls' \<noteq> []"
    by (cases tls) auto
  with run have "run_tool_loop self [\<lparr>role = ''user'', mcontent = Text query\<rparr>]
      (system_content_of hist) tls' tmo w = (res, w', tr)"
    by (simp add: generate_response_loop)
  then show ?thesis
    by (cases rule: run_tool_loop_cases)
       (auto simp: less_Suc_eq nth_Cons' rounds_tools rounds_tools_all takeWhile_tools
          takeWhile_tools_all llm_requests_append llm_requests_tools api_params_def
          build_messages_with_tool_results_def rounds_requests nth_append)
qed

theorem message_accumulation_witness:
  "rounds three_round_trace =
     [(tool_request messages1, Inr round1_response, [outline_call]),
      (tool_request messages2, Inr round2_response, [search_call]),
      (plain_request messages3, Inr final_response, [])]
   \<and> map (\<lambda>q. length (messages q)) (llm_requests three_round_trace) = [1, 1 + 2 * 1, 1 + 2 * 2]
   \<and> (\<exists>q r calls q' out' calls'.
         rounds three_round_trace ! 1 = (q, Inr r, calls)
       \<and> rounds three_round_trace ! Suc 1 = (q', out', calls')
       \<and> messages q' = messages q @
            [\<lparr>role = ''assistant'', mcontent = Blocks (content r)\<rparr>,
             \<lparr>role = ''user'', mcontent = ToolResults (results_for r calls)\<rparr>])"
proof -
  have rds: "rounds three_round_trace =
     [(tool_request messages1, Inr round1_response, [outline_call]),
      (tool_request messages2, Inr round2_response, [search_call]),
      (plain_request messages3, Inr final_response, [])]"
    by (simp add: three_round_trace_def outline_call_def search_call_def)
  have lens: "map (\<lambda>q. length (messages q)) (llm_requests three_round_trace) =
      [1, 1 + 2 * 1, 1 + 2 * 2]"
    by (simp add: three_round_trace_def outline_call_def search_call_def tool_request_def
          plain_request_def messages1_def messages2_def messages3_def)
  have "Suc 1 < length (rounds three_round_trace)"
    by (simp add: rds)
  with message_accumulation[OF three_round_run] rds lens show ?thesis
    by blast
qed

section \<open>A tool-use response without tool-use blocks\<close>

text \<open>
  Claim C10. If the response of a round within the budget has stop reason \<^verbatim>\<open>"tool_use"\<close> but
  no tool-use block (and a registry is supplied), the round is still used up: no tool is
  called, the loop appends the assistant response and a user message holding the empty list
  of tool results, goes on as round \<open>n + 1\<close>, and issues the next LLM request with that
  message list; it does not return at this point.
\<close>

theorem blockless_round_consumed:
  assumes "n < MAX_TOOL_ROUNDS"
    and "client self (api_params self msgs sys (Some tls) True) w = (Inr r, w1)"
    and "stop_reason r = ''tool_use''"
    and "tool_use_ids (content r) = []"
  shows "\<exists>res w' q out rest.
       run_rounds self sys tls (Some tm) n msgs w =
         (res, w', LLMCall (api_params self msgs sys (Some tls) True) (Inr r) # LLMCall q out # rest)
     \<and> messages q = msgs @ [\<lparr>role = ''assistant'', mcontent = Blocks (content r)\<rparr>,
                             \<lparr>role = ''user'', mcontent = ToolResults []\<rparr>]
     \<and> run_rounds self sys tls (Some tm) (n + 1)
          (msgs @ [\<lparr>role = ''assistant'', mcontent = Blocks (content r)\<rparr>,
                   \<lparr>role = ''user'', mcontent = ToolResults []\<rparr>]) w1 =
         (res, w', LLMCall q out # rest)"
proof -
  let ?msgs = "msgs @ [\<lparr>role = ''assistant'', mcontent = Blocks (content r)\<rparr>,
                   \<lparr>role = ''user'', mcontent = ToolResults []\<rparr>]"
  from assms(4) have x: "execute_tools r tm w1 = (Inr [], w1, [])"
    by (simp add: execute_tools_def execute_blocks_no_tools)
  obtain res w' tr' where rest: "run_rounds self sys tls (Some tm) (n + 1) ?msgs w1 = (res, w', tr')"
    by (cases "run_rounds self sys tls (Some tm) (n + 1) ?msgs w1")
  from run_rounds_head[OF rest] obtain out rest' where tr':
    "tr' = LLMCall (api_params self ?msgs sys
        (if n + 1 < MAX_TOOL_ROUNDS then Some tls else None) (n + 1 < MAX_TOOL_ROUNDS)) out # rest'"
    by blast
  have run: "run_rounds self sys tls (Some tm) n msgs w =
      (res, w', LLMCall (api_params self msgs sys (Some tls) True) (Inr r) # tr')"
    using assms(1,2,3) x rest
    by (subst run_rounds.simps)
       (simp add: make_api_call_def build_messages_with_tool_results_def)
  have "messages (api_params self ?msgs sys
        (if n + 1 < MAX_TOOL_ROUNDS then Some tls else None) (n + 1 < MAX_TOOL_ROUNDS)) = ?msgs"
    by (simp add: api_params_def)
  with run rest tr' show ?thesis by blast
qed

theorem blockless_round_consumed_witness:
  "0 < MAX_TOOL_ROUNDS \<and> stop_reason blockless_response = ''tool_use''
   \<and> tool_use_ids (content blockless_response) = []
   \<and> (\<exists>res w' q out rest.
         run_rounds (test_generator [blockless_response, final_response]) SYSTEM_PROMPT test_tools
           (Some test_manager) 0 messages1 0 =
           (res, w', LLMCall (tool_request messages1) (Inr blockless_response) #
                       LLMCall q out # rest)
       \<and> messages q = blockless_messages)"
proof -
  let ?g = "test_generator [blockless_response, final_response]"
  have h1: "0 < MAX_TOOL_ROUNDS"
    by (simp add: MAX_TOOL_ROUNDS_def)
  have h2: "client ?g (api_params ?g messages1 SYSTEM_PROMPT (Some test_tools) True) 0 =
      (Inr blockless_response, 1)"
    by (simp add: test_generator_def scripted_client_def)
  have h3: "stop_reason blockless_response = ''tool_use''"
    by (simp add: blockless_response_def)
  have h4: "tool_use_ids (content blockless_response) = []"
    by (simp add: blockless_response_def)
  have q1: "api_params ?g messages1 SYSTEM_PROMPT (Some test_tools) True = tool_request messages1"
    by (simp add: api_params_def tool_request_def test_generator_def test_tools_truthy)
  from blockless_round_consumed[OF h1 h2 h3 h4, where tm = test_manager]
  obtain res w' q out rest where
    run: "run_rounds ?g SYSTEM_PROMPT test_tools (Some test_manager) 0 messages1 0 =
      (res, w', LLMCall (api_params ?g messages1 SYSTEM_PROMPT (Some test_tools) True)
                  (Inr blockless_response) # LLMCall q out # rest)"
    and msgs: "messages q = messages1 @
      [\<lparr>role = ''assistant'', mcontent = Blocks (content blockless_response)\<rparr>,
       \<lparr>role = ''user'', mcontent = ToolResults []\<rparr>]"
    by blast
  from msgs have "messages q = blockless_messages"
    by (simp add: blockless_messages_def)
  with run q1 have "\<exists>res w' q out rest.
         run_rounds ?g SYSTEM_PROMPT test_tools (Some test_manager) 0 messages1 0 =
           (res, w', LLMCall (tool_request messages1) (Inr blockless_response) #
                       LLMCall q out # rest)
       \<and> messages q = blockless_messages"
    by (simp only:) blast
  with h1 h3 h4 show ?thesis by simp
qed

end
